theory Spec2Isabelle
  imports Main
begin

section \<open>The Database Cluster controller of provider-digitalocean\<close>

text \<open>
  The development embeds the two Go files of the controller: the lifecycle adapter
  \<^verbatim>\<open>dbExternal\<close> (Observe, Create, Update, Delete, setCrossplaneStatus) and the
  helpers of \<^verbatim>\<open>pkg/clients/database/database.go\<close> (GenerateDatabase,
  LateInitializeSpec). Go values are modelled as follows.
  \<^item> A \<^verbatim>\<open>*string\<close> is a \<open>string option\<close>, \<open>None\<close> being the nil pointer.
  \<^item> A \<^verbatim>\<open>[]string\<close> is a \<open>slice\<close>: nil, or a backing array (named by a number)
    together with its elements. The number is what tells a copy from an alias.
  \<^item> The \<^verbatim>\<open>error\<close> interface is \<open>error option\<close>, \<open>None\<close> being nil.
  \<^item> A nil-pointer dereference is the outcome \<open>Panicked\<close>.
  \<^item> The remote service and the object store are an environment of functions giving
    the reply to each call; every call made is appended to a log.
\<close>

subsection \<open>Errors\<close>

text \<open>
  \<^verbatim>\<open>errors.New\<close> and \<open>errors.Wrap\<close> of github.com/pkg/errors; \<open>ErrorResponse\<close> is
  an error produced by a client library (its message). Wrapping a nil error gives nil:
  Delete returns \<^verbatim>\<open>errors.Wrap(..., errDBDeleteFailed)\<close> on every path and relies
  on it.
\<close>

datatype error = ErrorNew string | ErrorWrap error string | ErrorResponse string

fun Wrap :: "error option \<Rightarrow> string \<Rightarrow> error option" where
  "Wrap None message = None"
| "Wrap (Some err) message = Some (ErrorWrap err message)"

definition errNotDB :: string where
  "errNotDB = ''managed resource is not a Database Cluster resource''"

definition errGetDB :: string where
  "errGetDB = ''cannot get a Database Cluster''"

definition errDBNameRequired :: string where
  "errDBNameRequired = ''name of Database Cluster is required''"

definition errDBCreateFailed :: string where
  "errDBCreateFailed = ''creation of Database Cluster resource has failed''"

definition errDBDeleteFailed :: string where
  "errDBDeleteFailed = ''deletion of Database Cluster resource has failed''"

definition errDBUpdate :: string where
  "errDBUpdate = ''cannot update managed Database Cluster resource''"

subsection \<open>Slices\<close>

datatype slice = NilSlice | Slice nat "string list"

fun len :: "slice \<Rightarrow> nat" where
  "len NilSlice = 0"
| "len (Slice a xs) = length xs"

fun elems :: "slice \<Rightarrow> string list" where
  "elems NilSlice = []"
| "elems (Slice a xs) = xs"

fun array :: "slice \<Rightarrow> nat option" where
  "array NilSlice = None"
| "array (Slice a xs) = Some a"

text \<open>
  \<^verbatim>\<open>make([]string, n)\<close>: the allocator hands out array numbers in order, so the
  number \<open>h\<close> it returns belongs to no array allocated before; the new array holds
  \<open>n\<close> empty strings.
\<close>

definition make_slice :: "nat \<Rightarrow> nat \<Rightarrow> nat \<times> slice" where
  "make_slice h n = (Suc h, Slice h (replicate n []))"

text \<open>\<^verbatim>\<open>copy(dst, src)\<close> overwrites the first \<open>min (len dst) (len src)\<close> elements.\<close>

fun copy_slice :: "slice \<Rightarrow> slice \<Rightarrow> slice" where
  "copy_slice NilSlice src = NilSlice"
| "copy_slice (Slice a xs) src = Slice a (take (length xs) (elems src) @ drop (len src) xs)"

subsection \<open>The data of the custom resource and of the remote service\<close>

record DODatabaseClusterParameters =
  Engine :: "string option"
  Version :: "string option"
  NumNodes :: int
  Size :: string
  Region :: string
  PrivateNetworkUUID :: "string option"
  Tags :: slice

text \<open>\<^verbatim>\<open>godo.DatabaseCreateRequest\<close>.\<close>

record DatabaseCreateRequest =
  req_Name :: string
  req_EngineSlug :: string
  req_Version :: string
  req_NumNodes :: int
  req_SizeSlug :: string
  req_Region :: string
  req_PrivateNetworkUUID :: string
  req_Tags :: slice

text \<open>\<^verbatim>\<open>godo.Database\<close>, the fields the controller reads.\<close>

record Database =
  db_ID :: string
  db_EngineSlug :: string
  db_VersionSlug :: string
  db_Status :: string
  db_PrivateNetworkUUID :: string
  db_Tags :: slice

text \<open>\<^verbatim>\<open>godo.Response\<close>, reduced to the HTTP status code.\<close>

record Response =
  StatusCode :: int

text \<open>
  \<^verbatim>\<open>v1alpha1.DODatabaseClusterObservation\<close>. Delete dereferences its \<open>ID\<close>, a
  pointer; setCrossplaneStatus switches on its \<open>Status\<close>.
\<close>

record DODatabaseClusterObservation =
  obs_ID :: "string option"
  obs_EngineSlug :: string
  obs_Version :: string
  obs_Status :: string
  obs_PrivateNetworkUUID :: string
  obs_Tags :: slice

text \<open>Conditions of crossplane-runtime (\<^verbatim>\<open>xpv1\<close>), without their timestamps.\<close>

datatype ConditionType = TypeReady | TypeSynced

datatype ConditionStatus = ConditionTrue | ConditionFalse | ConditionUnknown

datatype ConditionReason =
  ReasonAvailable | ReasonUnavailable | ReasonCreating | ReasonDeleting
  | ReasonReconcileSuccess | ReasonReconcileError | ReasonNone

record Condition =
  cond_Type :: ConditionType
  cond_Status :: ConditionStatus
  cond_Reason :: ConditionReason

definition Creating :: Condition where
  "Creating = \<lparr>cond_Type = TypeReady, cond_Status = ConditionFalse, cond_Reason = ReasonCreating\<rparr>"

definition Deleting :: Condition where
  "Deleting = \<lparr>cond_Type = TypeReady, cond_Status = ConditionFalse, cond_Reason = ReasonDeleting\<rparr>"

definition Available :: Condition where
  "Available = \<lparr>cond_Type = TypeReady, cond_Status = ConditionTrue, cond_Reason = ReasonAvailable\<rparr>"

definition Unavailable :: Condition where
  "Unavailable = \<lparr>cond_Type = TypeReady, cond_Status = ConditionFalse, cond_Reason = ReasonUnavailable\<rparr>"

text \<open>
  \<^verbatim>\<open>ConditionedStatus.SetConditions\<close> for one condition: a condition of the same
  type is replaced where it stands, otherwise the new one is appended.
\<close>

fun has_type :: "ConditionType \<Rightarrow> Condition list \<Rightarrow> bool" where
  "has_type t [] = False"
| "has_type t (c # cs) = (if cond_Type c = t then True else has_type t cs)"

fun replace_type :: "Condition \<Rightarrow> Condition list \<Rightarrow> Condition list" where
  "replace_type new [] = []"
| "replace_type new (c # cs) =
     (if cond_Type c = cond_Type new then new else c) # replace_type new cs"

definition set_condition :: "Condition \<Rightarrow> Condition list \<Rightarrow> Condition list" where
  "set_condition new cs =
     (if has_type (cond_Type new) cs then replace_type new cs else cs @ [new])"

text \<open>
  \<^verbatim>\<open>ConditionedStatus.GetCondition\<close>: the condition of the given type, or an
  unknown one of that type.
\<close>

fun GetCondition :: "ConditionType \<Rightarrow> Condition list \<Rightarrow> Condition" where
  "GetCondition t [] = \<lparr>cond_Type = t, cond_Status = ConditionUnknown, cond_Reason = ReasonNone\<rparr>"
| "GetCondition t (c # cs) = (if cond_Type c = t then c else GetCondition t cs)"

text \<open>
  \<^verbatim>\<open>v1alpha1.DODatabaseCluster\<close>: the object's name and annotations, the two parts
  of its spec the controller reads, the observed state and the conditions of its status.
\<close>

record DODatabaseCluster =
  Name :: string
  Annotations :: "string \<rightharpoonup> string"
  ForProvider :: DODatabaseClusterParameters
  WriteConnectionSecretToReference :: "string option"
  AtProvider :: DODatabaseClusterObservation
  Conditions :: "Condition list"

text \<open>
  \<^verbatim>\<open>resource.Managed\<close>: the handle the reconciler passes in. The type assertion
  \<^verbatim>\<open>mg.(*v1alpha1.DODatabaseCluster)\<close> succeeds on \<open>DBCluster\<close> only; \<open>OtherKind\<close> is a
  managed resource of another kind (named by its kind).
\<close>

datatype Managed = DBCluster DODatabaseCluster | OtherKind string

definition SetConditions :: "DODatabaseCluster \<Rightarrow> Condition \<Rightarrow> DODatabaseCluster" where
  "SetConditions cr c = cr\<lparr>Conditions := set_condition c (Conditions cr)\<rparr>"

text \<open>\<^verbatim>\<open>meta.GetExternalName\<close> and \<open>meta.SetExternalName\<close> of crossplane-runtime.\<close>

definition AnnotationKeyExternalName :: string where
  "AnnotationKeyExternalName = ''crossplane.io/external-name''"

definition GetExternalName :: "DODatabaseCluster \<Rightarrow> string" where
  "GetExternalName cr =
     (case Annotations cr AnnotationKeyExternalName of None \<Rightarrow> [] | Some v \<Rightarrow> v)"

definition SetExternalName :: "DODatabaseCluster \<Rightarrow> string \<Rightarrow> DODatabaseCluster" where
  "SetExternalName cr name =
     cr\<lparr>Annotations := (Annotations cr)(AnnotationKeyExternalName \<mapsto> name)\<rparr>"

subsection \<open>Helpers of pkg/clients\<close>

text \<open>
  Modelled from the spec: \<^verbatim>\<open>do.StringValue\<close> is not among the sources. The request
  builder's private-network id is the empty string when the pointer is nil.
\<close>

fun StringValue :: "string option \<Rightarrow> string" where
  "StringValue None = []"
| "StringValue (Some v) = v"

text \<open>
  Modelled from the spec: \<^verbatim>\<open>do.LateInitializeString\<close> is not among the sources. A
  field the caller set is never overwritten; an unset field takes the observed value.
  By the comment on LateInitializeSpec the observed value counts when it is set, that
  is, non-zero.
\<close>

definition LateInitializeString :: "string option \<Rightarrow> string \<Rightarrow> string option" where
  "LateInitializeString s from =
     (if s \<noteq> None \<or> from = [] then s else Some from)"

text \<open>
  Modelled from the spec: \<^verbatim>\<open>do.IgnoreNotFound\<close> is not among the sources. A
  not-found reply of the remote service (HTTP status 404) is swallowed, any other
  error is passed on.
\<close>

definition StatusNotFound :: int where
  "StatusNotFound = 404"

definition IgnoreNotFound :: "error option \<Rightarrow> Response option \<Rightarrow> error option" where
  "IgnoreNotFound err response =
     (case response of
        None \<Rightarrow> err
      | Some r \<Rightarrow> if StatusCode r = StatusNotFound then None else err)"

subsection \<open>pkg/clients/database/database.go\<close>

definition GenerateDatabase ::
  "string \<Rightarrow> DODatabaseClusterParameters \<Rightarrow> DatabaseCreateRequest \<Rightarrow> DatabaseCreateRequest" where
  "GenerateDatabase name in' create =
     create\<lparr>req_Name := name,
            req_EngineSlug := StringValue (Engine in'),
            req_Version := StringValue (Version in'),
            req_NumNodes := NumNodes in',
            req_SizeSlug := Size in',
            req_Region := Region in',
            req_PrivateNetworkUUID := StringValue (PrivateNetworkUUID in'),
            req_Tags := Tags in'\<rparr>"

text \<open>
  LateInitializeSpec mutates \<open>p\<close> in place and may allocate; the model takes the
  allocator and returns it with the new \<open>p\<close>.
\<close>

definition LateInitializeSpec ::
  "nat \<Rightarrow> DODatabaseClusterParameters \<Rightarrow> Database \<Rightarrow> nat \<times> DODatabaseClusterParameters" where
  "LateInitializeSpec h p observed =
     (let p1 = p\<lparr>Version := LateInitializeString (Version p) (db_EngineSlug observed)\<rparr>;
          p2 = p1\<lparr>PrivateNetworkUUID :=
                    LateInitializeString (PrivateNetworkUUID p1) (db_PrivateNetworkUUID observed)\<rparr>
      in if len (Tags p2) = 0 \<and> len (db_Tags observed) \<noteq> 0
         then (let (h', t) = make_slice h (len (db_Tags observed))
               in (h', p2\<lparr>Tags := copy_slice t (db_Tags observed)\<rparr>))
         else (h, p2))"

text \<open>
  Modelled from the spec: \<^verbatim>\<open>dodb.GenerateObservation\<close> is not among the sources.
  The observed state mirrors the record of the remote service: identifier, engine slug,
  version, lifecycle status, private-network id and tags.
\<close>

definition GenerateObservation :: "Database \<Rightarrow> DODatabaseClusterObservation" where
  "GenerateObservation observed =
     \<lparr>obs_ID = Some (db_ID observed),
      obs_EngineSlug = db_EngineSlug observed,
      obs_Version = db_VersionSlug observed,
      obs_Status = db_Status observed,
      obs_PrivateNetworkUUID = db_PrivateNetworkUUID observed,
      obs_Tags = db_Tags observed\<rparr>"

subsection \<open>Snapshot and comparison of the desired state\<close>

text \<open>
  Modelled from the spec: the generated \<^verbatim>\<open>DeepCopy\<close> is not among the sources.
  Observe takes a snapshot of the desired state before late initialisation; the
  snapshot holds the same values in storage of its own.
\<close>

definition DeepCopy ::
  "nat \<Rightarrow> DODatabaseClusterParameters \<Rightarrow> nat \<times> DODatabaseClusterParameters" where
  "DeepCopy h p =
     (case Tags p of
        NilSlice \<Rightarrow> (h, p)
      | Slice a xs \<Rightarrow>
          (let (h', t) = make_slice h (length xs)
           in (h', p\<lparr>Tags := copy_slice t (Tags p)\<rparr>)))"

text \<open>
  \<^verbatim>\<open>cmp.Equal\<close> on two parameter structs: pointers are compared by what they point
  to, slices by their elements, a nil slice differing from an empty one.
\<close>

fun slice_Equal :: "slice \<Rightarrow> slice \<Rightarrow> bool" where
  "slice_Equal NilSlice NilSlice = True"
| "slice_Equal (Slice a xs) (Slice b ys) = (xs = ys)"
| "slice_Equal s t = False"

definition cmp_Equal :: "DODatabaseClusterParameters \<Rightarrow> DODatabaseClusterParameters \<Rightarrow> bool" where
  "cmp_Equal x y =
     (Engine x = Engine y \<and> Version x = Version y \<and> NumNodes x = NumNodes y
      \<and> Size x = Size y \<and> Region x = Region y
      \<and> PrivateNetworkUUID x = PrivateNetworkUUID y \<and> slice_Equal (Tags x) (Tags y))"

subsection \<open>The world outside the adapter\<close>

type_synonym ConnectionDetails = "(string \<times> string) list"

text \<open>
  The replies of the remote service (\<^verbatim>\<open>c.Databases\<close>), of the object store
  (\<^verbatim>\<open>c.kube\<close>) and of the connection-details helper. Each lifecycle operation makes
  each call at most once, so a reply is a function of the call's argument.
\<close>

record Env =
  Databases_Get :: "string \<Rightarrow> Database option \<times> Response option \<times> error option"
  Databases_Create ::
    "DatabaseCreateRequest \<Rightarrow> Database option \<times> Response option \<times> error option"
  Databases_Delete :: "string \<Rightarrow> Response option \<times> error option"
  kube_Update :: "DODatabaseCluster \<Rightarrow> error option"
  GenerateConnectionDetails :: "Database \<Rightarrow> ConnectionDetails"

datatype Call =
  GetCall string
  | CreateCall DatabaseCreateRequest
  | DeleteCall string
  | KubeUpdateCall DODatabaseCluster
  | ConnectionDetailsCall Database

text \<open>The calls made so far, oldest first, and the allocator of backing arrays.\<close>

record State =
  calls :: "Call list"
  heap :: nat

definition call :: "Call \<Rightarrow> State \<Rightarrow> State" where
  "call c s = s\<lparr>calls := calls s @ [c]\<rparr>"

text \<open>
  The calls made on \<^verbatim>\<open>c.Databases\<close>, the three outbound calls to the remote
  service: fetch by identifier, create, delete by identifier.
\<close>

fun is_Databases_call :: "Call \<Rightarrow> bool" where
  "is_Databases_call (GetCall i) = True"
| "is_Databases_call (CreateCall r) = True"
| "is_Databases_call (DeleteCall i) = True"
| "is_Databases_call (KubeUpdateCall cr) = False"
| "is_Databases_call (ConnectionDetailsCall d) = False"

definition Databases_calls :: "State \<Rightarrow> Call list" where
  "Databases_calls s = filter is_Databases_call (calls s)"

text \<open>
  What an operation does: it returns a value and an error, or it panics on a nil
  pointer.
\<close>

datatype 'a Outcome = Returned 'a "error option" | Panicked

record ExternalObservation =
  ResourceExists :: bool
  ResourceUpToDate :: bool

record ExternalCreation =
  ec_ConnectionDetails :: ConnectionDetails

record ExternalUpdate =
  eu_ConnectionDetails :: ConnectionDetails

text \<open>The zero values \<^verbatim>\<open>managed.ExternalObservation{}\<close> and its siblings.\<close>

definition ExternalObservation0 :: ExternalObservation where
  "ExternalObservation0 = \<lparr>ResourceExists = False, ResourceUpToDate = False\<rparr>"

definition ExternalCreation0 :: ExternalCreation where
  "ExternalCreation0 = \<lparr>ec_ConnectionDetails = []\<rparr>"

definition ExternalUpdate0 :: ExternalUpdate where
  "ExternalUpdate0 = \<lparr>eu_ConnectionDetails = []\<rparr>"

definition DatabaseCreateRequest0 :: DatabaseCreateRequest where
  "DatabaseCreateRequest0 =
     \<lparr>req_Name = [], req_EngineSlug = [], req_Version = [], req_NumNodes = 0,
      req_SizeSlug = [], req_Region = [], req_PrivateNetworkUUID = [], req_Tags = NilSlice\<rparr>"

subsection \<open>The lifecycle adapter\<close>

text \<open>
  Modelled from the spec: the constants \<^verbatim>\<open>v1alpha1.StatusCreating\<close> and its
  siblings are not among the sources; the status table of the spec names them.
\<close>

definition StatusCreating :: string where
  "StatusCreating = ''creating''"

definition StatusOnline :: string where
  "StatusOnline = ''online''"

definition StatusMigrating :: string where
  "StatusMigrating = ''migrating''"

definition StatusResizing :: string where
  "StatusResizing = ''resizing''"

definition StatusForking :: string where
  "StatusForking = ''forking''"

text \<open>A Go \<^verbatim>\<open>switch\<close> does not fall through: the two empty cases do nothing.\<close>

definition setCrossplaneStatus :: "DODatabaseCluster \<Rightarrow> DODatabaseCluster" where
  "setCrossplaneStatus cr =
     (let status = obs_Status (AtProvider cr)
      in if status = StatusCreating then SetConditions cr Creating
         else if status = StatusOnline then SetConditions cr Available
         else if status = StatusMigrating then cr
         else if status = StatusResizing then cr
         else if status = StatusForking then SetConditions cr Unavailable
         else cr)"

text \<open>
  Each operation takes the environment, the state and the handle, and returns the new
  state, the handle as the operation leaves it, and the outcome.
\<close>

definition Observe ::
  "Env \<Rightarrow> State \<Rightarrow> Managed \<Rightarrow> State \<times> Managed \<times> ExternalObservation Outcome" where
  "Observe c s mg =
     (case mg of
        OtherKind k \<Rightarrow> (s, mg, Returned ExternalObservation0 (Some (ErrorNew errNotDB)))
      | DBCluster cr \<Rightarrow>
          (let en = GetExternalName cr
           in if en = []
              then (s, mg, Returned \<lparr>ResourceExists = False, ResourceUpToDate = False\<rparr> None)
              else
                (let (observed, response, err) = Databases_Get c (GetExternalName cr);
                     s1 = call (GetCall (GetExternalName cr)) s
                 in if err \<noteq> None
                    then (s1, mg,
                          Returned ExternalObservation0 (Wrap (IgnoreNotFound err response) errGetDB))
                    else
                      (let (h1, currentSpec) = DeepCopy (heap s1) (ForProvider cr)
                       in case observed of
                            None \<Rightarrow> (s1\<lparr>heap := h1\<rparr>, mg, Panicked)
                          | Some ob \<Rightarrow>
                              (let (h2, p) = LateInitializeSpec h1 (ForProvider cr) ob;
                                   cr1 = cr\<lparr>ForProvider := p\<rparr>;
                                   s2 = s1\<lparr>heap := h2\<rparr>;
                                   s3 = (if \<not> cmp_Equal currentSpec p
                                         then call (KubeUpdateCall cr1) s2 else s2);
                                   err1 = (if \<not> cmp_Equal currentSpec p
                                           then kube_Update c cr1 else None)
                               in if err1 \<noteq> None
                                  then (s3, DBCluster cr1,
                                        Returned ExternalObservation0 (Wrap err1 errDBUpdate))
                                  else
                                    (let cr2 = cr1\<lparr>AtProvider := GenerateObservation ob\<rparr>;
                                         cr3 = setCrossplaneStatus cr2
                                     in (s3, DBCluster cr3,
                                         Returned \<lparr>ResourceExists = True, ResourceUpToDate = True\<rparr>
                                           None)))))))"

definition Create ::
  "Env \<Rightarrow> State \<Rightarrow> Managed \<Rightarrow> State \<times> Managed \<times> ExternalCreation Outcome" where
  "Create c s mg =
     (case mg of
        OtherKind k \<Rightarrow> (s, mg, Returned ExternalCreation0 (Some (ErrorNew errNotDB)))
      | DBCluster cr0 \<Rightarrow>
          (let cr = SetConditions cr0 Creating;
               create = DatabaseCreateRequest0;
               name = (if GetExternalName cr \<noteq> [] then GetExternalName cr else Name cr)
           in if name = []
              then (s, DBCluster cr, Returned ExternalCreation0 (Some (ErrorNew errDBNameRequired)))
              else
                (let create1 = GenerateDatabase name (ForProvider cr) create;
                     (db, response, err) = Databases_Create c create1;
                     s1 = call (CreateCall create1) s
                 in if err \<noteq> None \<or> db = None
                    then (s1, DBCluster cr, Returned ExternalCreation0 (Wrap err errDBCreateFailed))
                    else
                      (case db of
                         None \<Rightarrow> (s1, DBCluster cr, Panicked)
                       | Some d \<Rightarrow>
                           (let cr1 = SetExternalName cr (db_ID d);
                                ec = ExternalCreation0
                            in if WriteConnectionSecretToReference cr1 \<noteq> None
                               then (call (ConnectionDetailsCall d) s1, DBCluster cr1,
                                     Returned (ec\<lparr>ec_ConnectionDetails :=
                                                   GenerateConnectionDetails c d\<rparr>) None)
                               else (s1, DBCluster cr1, Returned ec None))))))"

definition Update ::
  "Env \<Rightarrow> State \<Rightarrow> Managed \<Rightarrow> State \<times> Managed \<times> ExternalUpdate Outcome" where
  "Update c s mg = (s, mg, Returned ExternalUpdate0 None)"

definition Delete ::
  "Env \<Rightarrow> State \<Rightarrow> Managed \<Rightarrow> State \<times> Managed \<times> unit Outcome" where
  "Delete c s mg =
     (case mg of
        OtherKind k \<Rightarrow> (s, mg, Returned () (Some (ErrorNew errNotDB)))
      | DBCluster cr0 \<Rightarrow>
          (let cr = SetConditions cr0 Deleting
           in case obs_ID (AtProvider cr) of
                None \<Rightarrow> (s, DBCluster cr, Panicked)
              | Some i \<Rightarrow>
                  (let (response, err) = Databases_Delete c i
                   in (call (DeleteCall i) s, DBCluster cr,
                       Returned () (Wrap (IgnoreNotFound err response) errDBDeleteFailed)))))"

subsection \<open>Sample resources and replies\<close>

text \<open>
  Concrete resources and environments on which the theorems below are instantiated:
  a cluster not yet created, the same cluster once bound to the remote identifier
  \<open>id-1\<close>, and remote services that answer with success, with not-found, with a
  server failure, and with an empty body.
\<close>

definition parameters0 :: DODatabaseClusterParameters where
  "parameters0 =
     \<lparr>Engine = Some ''pg'', Version = None, NumNodes = 1, Size = ''db-s-1vcpu-1gb'',
      Region = ''nyc1'', PrivateNetworkUUID = None, Tags = NilSlice\<rparr>"

definition parameters1 :: DODatabaseClusterParameters where
  "parameters1 =
     \<lparr>Engine = Some ''pg'', Version = Some ''12'', NumNodes = 3, Size = ''db-s-2vcpu-4gb'',
      Region = ''ams3'', PrivateNetworkUUID = Some ''net-0'', Tags = Slice 0 [''x'']\<rparr>"

definition observation0 :: DODatabaseClusterObservation where
  "observation0 =
     \<lparr>obs_ID = None, obs_EngineSlug = [], obs_Version = [], obs_Status = [],
      obs_PrivateNetworkUUID = [], obs_Tags = NilSlice\<rparr>"

definition cluster0 :: DODatabaseCluster where
  "cluster0 =
     \<lparr>Name = ''db'', Annotations = Map.empty, ForProvider = parameters0,
      WriteConnectionSecretToReference = None, AtProvider = observation0, Conditions = []\<rparr>"

definition cluster1 :: DODatabaseCluster where
  "cluster1 =
     cluster0\<lparr>Annotations := [AnnotationKeyExternalName \<mapsto> ''id-1''],
              AtProvider := observation0\<lparr>obs_ID := Some ''id-1''\<rparr>\<rparr>"

definition cluster_other_ID :: DODatabaseCluster where
  "cluster_other_ID = cluster1\<lparr>AtProvider := observation0\<lparr>obs_ID := Some ''id-2''\<rparr>\<rparr>"

definition cluster_unnamed :: DODatabaseCluster where
  "cluster_unnamed = cluster0\<lparr>Name := []\<rparr>"

definition cluster_status :: "string \<Rightarrow> DODatabaseCluster" where
  "cluster_status st = cluster1\<lparr>AtProvider := observation0\<lparr>obs_Status := st\<rparr>\<rparr>"

definition database0 :: Database where
  "database0 =
     \<lparr>db_ID = ''id-1'', db_EngineSlug = ''pg'', db_VersionSlug = ''14'', db_Status = ''online'',
      db_PrivateNetworkUUID = ''net-1'', db_Tags = Slice 0 [''a'', ''b'']\<rparr>"

definition env0 :: Env where
  "env0 =
     \<lparr>Databases_Get = (\<lambda>i. (Some database0, Some \<lparr>StatusCode = 200\<rparr>, None)),
      Databases_Create = (\<lambda>r. (Some database0, Some \<lparr>StatusCode = 201\<rparr>, None)),
      Databases_Delete = (\<lambda>i. (Some \<lparr>StatusCode = 204\<rparr>, None)),
      kube_Update = (\<lambda>cr. None),
      GenerateConnectionDetails = (\<lambda>d. [])\<rparr>"

definition env_not_found :: Env where
  "env_not_found =
     env0\<lparr>Databases_Get :=
            (\<lambda>i. (None, Some \<lparr>StatusCode = 404\<rparr>, Some (ErrorResponse ''not found''))),
          Databases_Delete :=
            (\<lambda>i. (Some \<lparr>StatusCode = 404\<rparr>, Some (ErrorResponse ''not found'')))\<rparr>"

definition env_failure :: Env where
  "env_failure =
     env0\<lparr>Databases_Get :=
            (\<lambda>i. (None, Some \<lparr>StatusCode = 500\<rparr>, Some (ErrorResponse ''server error''))),
          Databases_Create :=
            (\<lambda>r. (None, Some \<lparr>StatusCode = 500\<rparr>, Some (ErrorResponse ''server error''))),
          Databases_Delete :=
            (\<lambda>i. (Some \<lparr>StatusCode = 500\<rparr>, Some (ErrorResponse ''server error'')))\<rparr>"

definition env_empty_body :: Env where
  "env_empty_body =
     env0\<lparr>Databases_Create := (\<lambda>r. (None, Some \<lparr>StatusCode = 201\<rparr>, None))\<rparr>"

definition state0 :: State where
  "state0 = \<lparr>calls = [], heap = 1\<rparr>"

lemmas samples =
  parameters0_def parameters1_def observation0_def cluster0_def cluster1_def
  cluster_other_ID_def cluster_unnamed_def cluster_status_def database0_def env0_def
  env_not_found_def env_failure_def env_empty_body_def state0_def

section \<open>Properties\<close>

subsection \<open>Auxiliary facts\<close>

lemma set_condition_get: "GetCondition (cond_Type c) (set_condition c cs) = c"
proof -
  have r: "has_type (cond_Type c) cs \<Longrightarrow> GetCondition (cond_Type c) (replace_type c cs) = c"
    for cs
    by (induction cs) auto
  have a: "\<not> has_type (cond_Type c) cs \<Longrightarrow> GetCondition (cond_Type c) (cs @ [c]) = c"
    for cs
    by (induction cs) (auto split: if_splits)
  show ?thesis by (simp add: set_condition_def r a)
qed

lemma GetExternalName_SetConditions [simp]:
  "GetExternalName (SetConditions cr c) = GetExternalName cr"
  by (simp add: GetExternalName_def SetConditions_def)

lemma ForProvider_SetConditions [simp]: "ForProvider (SetConditions cr c) = ForProvider cr"
  by (simp add: SetConditions_def)

lemma Name_SetConditions [simp]: "Name (SetConditions cr c) = Name cr"
  by (simp add: SetConditions_def)

lemma AtProvider_SetConditions [simp]: "AtProvider (SetConditions cr c) = AtProvider cr"
  by (simp add: SetConditions_def)

lemma Databases_calls_call [simp]:
  "Databases_calls (call c s) = Databases_calls s @ (if is_Databases_call c then [c] else [])"
  by (simp add: Databases_calls_def call_def)

lemma Databases_calls_heap [simp]: "Databases_calls (s\<lparr>heap := h\<rparr>) = Databases_calls s"
  by (simp add: Databases_calls_def)

lemma len_elems: "len t = length (elems t)"
  by (cases t) simp_all

lemma GetExternalName_samples [simp]:
  "GetExternalName cluster0 = []" "GetExternalName cluster1 = ''id-1''"
  "GetExternalName cluster_other_ID = ''id-1''" "GetExternalName cluster_unnamed = []"
  by (simp_all add: GetExternalName_def samples)

subsection \<open>Create: failure of the remote call\<close>

text \<open>
  Claim C1. When the remote create call returns a nil database or a non-nil error,
  Create should return an error wrapped with the creation-failure tag, also for a nil
  database with a nil error. The guard of Create takes that branch, but wrapping the
  nil error yields nil: whenever the remote call answers with a nil database and a
  nil error, Create returns the empty creation with no error at all, after one create
  call.
\<close>

theorem Create_nil_database_nil_error:
  assumes "(if GetExternalName cr \<noteq> [] then GetExternalName cr else Name cr) \<noteq> []"
    and "Databases_Create c
           (GenerateDatabase (if GetExternalName cr \<noteq> [] then GetExternalName cr else Name cr)
              (ForProvider cr) DatabaseCreateRequest0) = (None, response, None)"
  shows "snd (snd (Create c s (DBCluster cr))) = Returned ExternalCreation0 None"
  using assms by (cases "GetExternalName cr = []") (simp_all add: Create_def Let_def)

text \<open>
  The instance: the cluster named \<open>db\<close>, not yet bound, and a remote service whose
  reply to the create call carries no database and no error.
\<close>

theorem Create_nil_database_nil_error_witness:
  "Name cluster0 = ''db''
   \<and> Databases_Create env_empty_body
        (GenerateDatabase ''db'' (ForProvider cluster0) DatabaseCreateRequest0)
       = (None, Some \<lparr>StatusCode = 201\<rparr>, None)
   \<and> snd (snd (Create env_empty_body state0 (DBCluster cluster0)))
       = Returned ExternalCreation0 None"
proof -
  have n: "(if GetExternalName cluster0 \<noteq> [] then GetExternalName cluster0 else Name cluster0) \<noteq> []"
    by (simp add: cluster0_def)
  have r: "Databases_Create env_empty_body
             (GenerateDatabase
                (if GetExternalName cluster0 \<noteq> [] then GetExternalName cluster0 else Name cluster0)
                (ForProvider cluster0) DatabaseCreateRequest0)
           = (None, Some \<lparr>StatusCode = 201\<rparr>, None)"
    by (simp add: env_empty_body_def env0_def)
  from Create_nil_database_nil_error [OF n r, of state0]
  show ?thesis by (simp add: env_empty_body_def env0_def cluster0_def)
qed

text \<open>A non-nil error of the remote create call is wrapped with the tag.\<close>

lemma Create_remote_error:
  assumes "(if GetExternalName cr \<noteq> [] then GetExternalName cr else Name cr) \<noteq> []"
    and "snd (snd (Databases_Create c
           (GenerateDatabase (if GetExternalName cr \<noteq> [] then GetExternalName cr else Name cr)
              (ForProvider cr) DatabaseCreateRequest0))) = Some e"
  shows "snd (snd (Create c s (DBCluster cr)))
           = Returned ExternalCreation0 (Some (ErrorWrap e errDBCreateFailed))"
  using assms by (auto simp: Create_def Let_def split: prod.splits)

subsection \<open>The identifier passed to the remote service\<close>

text \<open>
  Claim C2, as stated, fails for Delete: on a cluster whose external-name annotation is
  \<open>id-1\<close> and whose observed identifier is \<open>id-2\<close>, the delete call is made
  with \<open>id-2\<close>.
\<close>

theorem Delete_key_counterexample:
  "GetExternalName cluster_other_ID = ''id-1''
   \<and> Databases_calls (fst (Delete env0 state0 (DBCluster cluster_other_ID)))
       = [DeleteCall ''id-2'']"
  by (simp add: Delete_def Let_def SetConditions_def Databases_calls_def call_def
      GetExternalName_def cluster_other_ID_def cluster1_def cluster0_def observation0_def
      env0_def state0_def)

text \<open>
  Claim C2, amended. Observe on a bound resource makes exactly one call on the remote
  service, the fetch with the external-name annotation as its identifier, and none on an
  unbound resource. Delete makes exactly one call, the delete with the observed
  identifier \<open>Status.AtProvider.ID\<close> of the resource, and none when that pointer is nil.
\<close>

theorem Observe_Delete_key:
  "(GetExternalName cr \<noteq> [] \<longrightarrow>
      Databases_calls (fst (Observe c s (DBCluster cr)))
        = Databases_calls s @ [GetCall (GetExternalName cr)])
   \<and> (GetExternalName cr = [] \<longrightarrow>
      Databases_calls (fst (Observe c s (DBCluster cr))) = Databases_calls s)
   \<and> (obs_ID (AtProvider cr) = Some i \<longrightarrow>
      Databases_calls (fst (Delete c s (DBCluster cr))) = Databases_calls s @ [DeleteCall i])
   \<and> (obs_ID (AtProvider cr) = None \<longrightarrow>
      Databases_calls (fst (Delete c s (DBCluster cr))) = Databases_calls s)"
proof -
  have o1: "Databases_calls (fst (Observe c s (DBCluster cr)))
              = Databases_calls s @ [GetCall (GetExternalName cr)]"
    if "GetExternalName cr \<noteq> []"
    using that by (simp add: Observe_def Let_def split: prod.splits option.splits)
  have o2: "Databases_calls (fst (Observe c s (DBCluster cr))) = Databases_calls s"
    if "GetExternalName cr = []"
    using that by (simp add: Observe_def)
  have d1: "Databases_calls (fst (Delete c s (DBCluster cr)))
              = Databases_calls s @ [DeleteCall i]"
    if "obs_ID (AtProvider cr) = Some i"
    using that by (simp add: Delete_def Let_def split: prod.splits)
  have d2: "Databases_calls (fst (Delete c s (DBCluster cr))) = Databases_calls s"
    if "obs_ID (AtProvider cr) = None"
    using that by (simp add: Delete_def Let_def)
  from o1 o2 d1 d2 show ?thesis by blast
qed

theorem Observe_Delete_key_witness:
  "GetExternalName cluster_other_ID = ''id-1''
   \<and> obs_ID (AtProvider cluster_other_ID) = Some ''id-2''
   \<and> Databases_calls state0 = []
   \<and> Databases_calls (fst (Observe env0 state0 (DBCluster cluster_other_ID))) = [GetCall ''id-1'']
   \<and> Databases_calls (fst (Delete env0 state0 (DBCluster cluster_other_ID))) = [DeleteCall ''id-2'']
   \<and> GetExternalName cluster0 = []
   \<and> obs_ID (AtProvider cluster0) = None
   \<and> Databases_calls (fst (Observe env0 state0 (DBCluster cluster0))) = []
   \<and> Databases_calls (fst (Delete env0 state0 (DBCluster cluster0))) = []"
  using Observe_Delete_key [of cluster_other_ID env0 state0 "''id-2''"]
    Observe_Delete_key [of cluster0 env0 state0 "''id-2''"]
  by (simp add: Databases_calls_def GetExternalName_def cluster_other_ID_def cluster1_def
      cluster0_def observation0_def state0_def)

subsection \<open>A handle of the wrong kind\<close>

text \<open>
  Claim C3, as stated, fails for Update: on a handle that is not a Database Cluster it
  returns the empty update and no error.
\<close>

theorem Update_other_kind_counterexample:
  "Update env0 state0 (OtherKind ''Droplet'')
     = (state0, OtherKind ''Droplet'', Returned ExternalUpdate0 None)"
  by (simp add: Update_def)

text \<open>
  Claim C3, amended. On a handle that is not a Database Cluster, each of Observe, Create
  and Delete returns the fixed wrong-kind error and does nothing else: no call is made,
  nothing is allocated and the handle is untouched. Update makes no type assertion: on
  every handle it returns the empty update with no error, and does nothing else.
\<close>

theorem wrong_kind:
  "Observe c s (OtherKind k)
     = (s, OtherKind k, Returned ExternalObservation0 (Some (ErrorNew errNotDB)))
   \<and> Create c s (OtherKind k)
     = (s, OtherKind k, Returned ExternalCreation0 (Some (ErrorNew errNotDB)))
   \<and> Delete c s (OtherKind k) = (s, OtherKind k, Returned () (Some (ErrorNew errNotDB)))
   \<and> Update c s mg = (s, mg, Returned ExternalUpdate0 None)"
  by (simp add: Observe_def Create_def Delete_def Update_def)

theorem wrong_kind_witness:
  "snd (snd (Observe env0 state0 (OtherKind ''Droplet'')))
     = Returned ExternalObservation0
         (Some (ErrorNew ''managed resource is not a Database Cluster resource''))
   \<and> fst (Create env0 state0 (OtherKind ''Droplet'')) = state0
   \<and> fst (Delete env0 state0 (OtherKind ''Droplet'')) = state0
   \<and> snd (snd (Update env0 state0 (DBCluster cluster0))) = Returned ExternalUpdate0 None"
  using wrong_kind [of env0 state0 "''Droplet''" "DBCluster cluster0"]
  by (simp add: errNotDB_def)

subsection \<open>Delete and the observed identifier\<close>

text \<open>
  Claim C4. Delete dereferences \<open>Status.AtProvider.ID\<close> without a nil check. When the
  pointer is nil, Delete panics, after setting the Deleting condition and before any
  call is made; when it is not nil, Delete does not panic.
\<close>

theorem Delete_nil_ID:
  "(obs_ID (AtProvider cr) = None \<longrightarrow>
      Delete c s (DBCluster cr) = (s, DBCluster (SetConditions cr Deleting), Panicked))
   \<and> (obs_ID (AtProvider cr) \<noteq> None \<longrightarrow> snd (snd (Delete c s (DBCluster cr))) \<noteq> Panicked)"
  by (auto simp: Delete_def Let_def split: prod.splits)

theorem Delete_nil_ID_witness:
  "obs_ID (AtProvider cluster0) = None
   \<and> snd (snd (Delete env0 state0 (DBCluster cluster0))) = Panicked
   \<and> fst (Delete env0 state0 (DBCluster cluster0)) = state0
   \<and> obs_ID (AtProvider cluster1) \<noteq> None
   \<and> snd (snd (Delete env0 state0 (DBCluster cluster1))) \<noteq> Panicked"
  using Delete_nil_ID [of cluster0 env0 state0] Delete_nil_ID [of cluster1 env0 state0]
  by (simp add: cluster0_def cluster1_def observation0_def)

subsection \<open>Late initialisation of the desired state\<close>

text \<open>
  Claim C5. LateInitializeSpec changes the version only if it was unset, and then to the
  observed engine slug; it changes the private-network id only if it was unset, and then
  to the observed private-network id; it changes the tags only if the desired tags were
  empty, and then to a slice with the elements of the observed tags in a backing array
  allocated by this call (its number is the allocator's next one, which no earlier
  array has, the array of the observed tags included). A version or private-network id that was set, and tags that were not
  empty, are unchanged; so are engine, node count, size and region. After the call an
  unset version reads as the observed engine slug, an unset private-network id as the
  observed one, and empty tags hold the observed elements.
\<close>

theorem LateInitializeSpec_fills_unset:
  "(Version (snd (LateInitializeSpec h p observed)) \<noteq> Version p \<longrightarrow>
      Version p = None
      \<and> Version (snd (LateInitializeSpec h p observed)) = Some (db_EngineSlug observed))
   \<and> (PrivateNetworkUUID (snd (LateInitializeSpec h p observed)) \<noteq> PrivateNetworkUUID p \<longrightarrow>
      PrivateNetworkUUID p = None
      \<and> PrivateNetworkUUID (snd (LateInitializeSpec h p observed))
          = Some (db_PrivateNetworkUUID observed))
   \<and> (Tags (snd (LateInitializeSpec h p observed)) \<noteq> Tags p \<longrightarrow>
      len (Tags p) = 0
      \<and> elems (Tags (snd (LateInitializeSpec h p observed))) = elems (db_Tags observed)
      \<and> array (Tags (snd (LateInitializeSpec h p observed))) = Some h
      \<and> fst (LateInitializeSpec h p observed) = Suc h)
   \<and> (Tags (snd (LateInitializeSpec h p observed)) \<noteq> Tags p
       \<and> array (db_Tags observed) = Some a \<and> a < h \<longrightarrow>
      array (Tags (snd (LateInitializeSpec h p observed))) \<noteq> array (db_Tags observed))
   \<and> (Version p \<noteq> None \<longrightarrow> Version (snd (LateInitializeSpec h p observed)) = Version p)
   \<and> (PrivateNetworkUUID p \<noteq> None \<longrightarrow>
      PrivateNetworkUUID (snd (LateInitializeSpec h p observed)) = PrivateNetworkUUID p)
   \<and> (len (Tags p) \<noteq> 0 \<longrightarrow> Tags (snd (LateInitializeSpec h p observed)) = Tags p)
   \<and> (Version p = None \<longrightarrow>
      StringValue (Version (snd (LateInitializeSpec h p observed))) = db_EngineSlug observed)
   \<and> (PrivateNetworkUUID p = None \<longrightarrow>
      StringValue (PrivateNetworkUUID (snd (LateInitializeSpec h p observed)))
        = db_PrivateNetworkUUID observed)
   \<and> (len (Tags p) = 0 \<longrightarrow>
      elems (Tags (snd (LateInitializeSpec h p observed))) = elems (db_Tags observed))
   \<and> Engine (snd (LateInitializeSpec h p observed)) = Engine p
   \<and> NumNodes (snd (LateInitializeSpec h p observed)) = NumNodes p
   \<and> Size (snd (LateInitializeSpec h p observed)) = Size p
   \<and> Region (snd (LateInitializeSpec h p observed)) = Region p"
proof -
  let ?r = "LateInitializeSpec h p observed"
  have v: "Version (snd ?r) = LateInitializeString (Version p) (db_EngineSlug observed)"
    by (simp add: LateInitializeSpec_def Let_def split: prod.splits)
  have n: "PrivateNetworkUUID (snd ?r)
             = LateInitializeString (PrivateNetworkUUID p) (db_PrivateNetworkUUID observed)"
    by (simp add: LateInitializeSpec_def Let_def split: prod.splits)
  have t: "Tags (snd ?r) =
             (if len (Tags p) = 0 \<and> len (db_Tags observed) \<noteq> 0
              then Slice h (elems (db_Tags observed)) else Tags p)"
    by (simp add: LateInitializeSpec_def Let_def make_slice_def len_elems split: prod.splits)
  have a: "fst ?r = (if len (Tags p) = 0 \<and> len (db_Tags observed) \<noteq> 0 then Suc h else h)"
    by (simp add: LateInitializeSpec_def Let_def make_slice_def split: prod.splits)
  have rest: "Engine (snd ?r) = Engine p" "NumNodes (snd ?r) = NumNodes p"
    "Size (snd ?r) = Size p" "Region (snd ?r) = Region p"
    by (simp_all add: LateInitializeSpec_def Let_def split: prod.splits)
  have c1: "Version (snd ?r) \<noteq> Version p \<longrightarrow>
      Version p = None \<and> Version (snd ?r) = Some (db_EngineSlug observed)"
    by (simp add: v LateInitializeString_def)
  have c2: "PrivateNetworkUUID (snd ?r) \<noteq> PrivateNetworkUUID p \<longrightarrow>
      PrivateNetworkUUID p = None
      \<and> PrivateNetworkUUID (snd ?r) = Some (db_PrivateNetworkUUID observed)"
    by (simp add: n LateInitializeString_def)
  have c3: "Tags (snd ?r) \<noteq> Tags p \<longrightarrow>
      len (Tags p) = 0 \<and> elems (Tags (snd ?r)) = elems (db_Tags observed)
      \<and> array (Tags (snd ?r)) = Some h \<and> fst ?r = Suc h"
    by (simp add: t a)
  have c3': "Tags (snd ?r) \<noteq> Tags p \<and> array (db_Tags observed) = Some a \<and> a < h \<longrightarrow>
      array (Tags (snd ?r)) \<noteq> array (db_Tags observed)"
    using c3 by auto
  have c4: "Version p \<noteq> None \<longrightarrow> Version (snd ?r) = Version p"
    by (simp add: v LateInitializeString_def)
  have c5: "PrivateNetworkUUID p \<noteq> None \<longrightarrow> PrivateNetworkUUID (snd ?r) = PrivateNetworkUUID p"
    by (simp add: n LateInitializeString_def)
  have c6: "len (Tags p) \<noteq> 0 \<longrightarrow> Tags (snd ?r) = Tags p"
    by (simp add: t)
  have c7: "Version p = None \<longrightarrow> StringValue (Version (snd ?r)) = db_EngineSlug observed"
    by (simp add: v LateInitializeString_def)
  have c8: "PrivateNetworkUUID p = None \<longrightarrow>
      StringValue (PrivateNetworkUUID (snd ?r)) = db_PrivateNetworkUUID observed"
    by (simp add: n LateInitializeString_def)
  have c9: "len (Tags p) = 0 \<longrightarrow> elems (Tags (snd ?r)) = elems (db_Tags observed)"
    by (simp add: t len_elems)
  from c1 c2 c3 c3' c4 c5 c6 c7 c8 c9 rest show ?thesis by blast
qed

text \<open>
  Two instances: a desired state with version, private-network id and tags unset takes
  all three from the observed database, the tags in the new array 1 while the observed
  tags live in array 0; a desired state with all three set is returned as it was.
\<close>

theorem LateInitializeSpec_fills_unset_witness:
  "Version parameters0 = None
   \<and> Version (snd (LateInitializeSpec 1 parameters0 database0)) = Some ''pg''
   \<and> PrivateNetworkUUID (snd (LateInitializeSpec 1 parameters0 database0)) = Some ''net-1''
   \<and> Tags (snd (LateInitializeSpec 1 parameters0 database0)) = Slice 1 [''a'', ''b'']
   \<and> array (db_Tags database0) = Some 0
   \<and> Version parameters1 = Some ''12''
   \<and> len (Tags parameters1) = 1
   \<and> snd (LateInitializeSpec 1 parameters1 database0) = parameters1"
  using LateInitializeSpec_fills_unset [of 1 parameters0 database0 0]
    LateInitializeSpec_fills_unset [of 1 parameters1 database0 0]
  by (simp add: LateInitializeSpec_def LateInitializeString_def make_slice_def Let_def
      parameters0_def parameters1_def database0_def)

subsection \<open>The status table\<close>

text \<open>
  Claim C6. The condition set by setCrossplaneStatus is a function of the observed
  status string alone: \<open>creating\<close> sets Creating, \<open>online\<close> sets Available,
  \<open>forking\<close> sets Unavailable (the Ready condition of the resource is then that
  condition), and \<open>migrating\<close>, \<open>resizing\<close> and every other string leave the
  resource as it was. The function returns no error.
\<close>

theorem setCrossplaneStatus_table:
  "(obs_Status (AtProvider cr) = ''creating'' \<longrightarrow>
      setCrossplaneStatus cr = SetConditions cr Creating
      \<and> GetCondition TypeReady (Conditions (setCrossplaneStatus cr)) = Creating)
   \<and> (obs_Status (AtProvider cr) = ''online'' \<longrightarrow>
      setCrossplaneStatus cr = SetConditions cr Available
      \<and> GetCondition TypeReady (Conditions (setCrossplaneStatus cr)) = Available)
   \<and> (obs_Status (AtProvider cr) = ''forking'' \<longrightarrow>
      setCrossplaneStatus cr = SetConditions cr Unavailable
      \<and> GetCondition TypeReady (Conditions (setCrossplaneStatus cr)) = Unavailable)
   \<and> (obs_Status (AtProvider cr) = ''migrating'' \<longrightarrow> setCrossplaneStatus cr = cr)
   \<and> (obs_Status (AtProvider cr) = ''resizing'' \<longrightarrow> setCrossplaneStatus cr = cr)
   \<and> (obs_Status (AtProvider cr) \<noteq> ''creating'' \<and> obs_Status (AtProvider cr) \<noteq> ''online''
       \<and> obs_Status (AtProvider cr) \<noteq> ''forking'' \<longrightarrow> setCrossplaneStatus cr = cr)"
proof -
  have g: "GetCondition TypeReady (Conditions (SetConditions cr x)) = x"
    if "cond_Type x = TypeReady" for x
    using set_condition_get [of x "Conditions cr"] that by (simp add: SetConditions_def)
  have t: "cond_Type Creating = TypeReady" "cond_Type Available = TypeReady"
    "cond_Type Unavailable = TypeReady"
    by (simp_all add: Creating_def Available_def Unavailable_def)
  show ?thesis
    by (simp add: setCrossplaneStatus_def Let_def StatusCreating_def StatusOnline_def
        StatusMigrating_def StatusResizing_def StatusForking_def g t)
qed

theorem setCrossplaneStatus_table_witness:
  "Conditions (setCrossplaneStatus (cluster_status ''creating'')) = [Creating]
   \<and> Conditions (setCrossplaneStatus (cluster_status ''online'')) = [Available]
   \<and> Conditions (setCrossplaneStatus (cluster_status ''forking'')) = [Unavailable]
   \<and> setCrossplaneStatus (cluster_status ''migrating'') = cluster_status ''migrating''
   \<and> setCrossplaneStatus (cluster_status ''resizing'') = cluster_status ''resizing''
   \<and> setCrossplaneStatus (cluster_status ''degraded'') = cluster_status ''degraded''"
  using setCrossplaneStatus_table [of "cluster_status ''creating''"]
    setCrossplaneStatus_table [of "cluster_status ''online''"]
    setCrossplaneStatus_table [of "cluster_status ''forking''"]
    setCrossplaneStatus_table [of "cluster_status ''migrating''"]
    setCrossplaneStatus_table [of "cluster_status ''resizing''"]
    setCrossplaneStatus_table [of "cluster_status ''degraded''"]
  by (simp add: cluster_status_def cluster1_def cluster0_def observation0_def
      SetConditions_def set_condition_def)

subsection \<open>Create: the target name\<close>

text \<open>
  Claim C7. On a Database Cluster, Create sends one create request whose name is the
  external-name annotation when that is not empty, and the resource's own name
  otherwise. When both are empty it returns the name-required error; the state is then
  as before the call, so no call was made.
\<close>

theorem Create_target_name:
  "(GetExternalName cr \<noteq> [] \<longrightarrow>
      Databases_calls (fst (Create c s (DBCluster cr))) =
        Databases_calls s @ [CreateCall (GenerateDatabase (GetExternalName cr) (ForProvider cr)
                                           DatabaseCreateRequest0)])
   \<and> (GetExternalName cr = [] \<and> Name cr \<noteq> [] \<longrightarrow>
      Databases_calls (fst (Create c s (DBCluster cr))) =
        Databases_calls s @ [CreateCall (GenerateDatabase (Name cr) (ForProvider cr)
                                           DatabaseCreateRequest0)])
   \<and> (GetExternalName cr = [] \<and> Name cr = [] \<longrightarrow>
      Create c s (DBCluster cr) =
        (s, DBCluster (SetConditions cr Creating),
         Returned ExternalCreation0 (Some (ErrorNew errDBNameRequired))))
   \<and> req_Name (GenerateDatabase name (ForProvider cr) DatabaseCreateRequest0) = name"
proof -
  have a: "Databases_calls (fst (Create c s (DBCluster cr))) =
        Databases_calls s @ [CreateCall (GenerateDatabase (GetExternalName cr) (ForProvider cr)
                                           DatabaseCreateRequest0)]"
    if "GetExternalName cr \<noteq> []"
    using that by (simp add: Create_def Let_def split: prod.splits option.splits)
  have b: "Databases_calls (fst (Create c s (DBCluster cr))) =
        Databases_calls s @ [CreateCall (GenerateDatabase (Name cr) (ForProvider cr)
                                           DatabaseCreateRequest0)]"
    if "GetExternalName cr = []" "Name cr \<noteq> []"
    using that by (simp add: Create_def Let_def split: prod.splits option.splits)
  have d: "Create c s (DBCluster cr) =
        (s, DBCluster (SetConditions cr Creating),
         Returned ExternalCreation0 (Some (ErrorNew errDBNameRequired)))"
    if "GetExternalName cr = []" "Name cr = []"
    using that by (simp add: Create_def Let_def)
  have e: "req_Name (GenerateDatabase name (ForProvider cr) DatabaseCreateRequest0) = name"
    by (simp add: GenerateDatabase_def)
  from a b d e show ?thesis by blast
qed

theorem Create_target_name_witness:
  "GetExternalName cluster1 = ''id-1''
   \<and> Databases_calls (fst (Create env0 state0 (DBCluster cluster1)))
       = [CreateCall (GenerateDatabase ''id-1'' parameters0 DatabaseCreateRequest0)]
   \<and> GetExternalName cluster0 = [] \<and> Name cluster0 = ''db''
   \<and> Databases_calls (fst (Create env0 state0 (DBCluster cluster0)))
       = [CreateCall (GenerateDatabase ''db'' parameters0 DatabaseCreateRequest0)]
   \<and> GetExternalName cluster_unnamed = [] \<and> Name cluster_unnamed = []
   \<and> fst (Create env0 state0 (DBCluster cluster_unnamed)) = state0
   \<and> snd (snd (Create env0 state0 (DBCluster cluster_unnamed)))
       = Returned ExternalCreation0 (Some (ErrorNew ''name of Database Cluster is required''))"
  using Create_target_name [of cluster1 env0 state0]
    Create_target_name [of cluster0 env0 state0]
    Create_target_name [of cluster_unnamed env0 state0]
  by (simp add: Databases_calls_def GetExternalName_def cluster_unnamed_def cluster1_def
      cluster0_def state0_def errDBNameRequired_def)

subsection \<open>Observe without an external name\<close>

text \<open>
  Claim C8. On a Database Cluster whose external-name annotation is empty, Observe
  returns exists = false with no error; the state and the resource are as before the
  call, so no call was made.
\<close>

theorem Observe_no_external_name:
  "GetExternalName cr = [] \<Longrightarrow>
     Observe c s (DBCluster cr) =
       (s, DBCluster cr, Returned \<lparr>ResourceExists = False, ResourceUpToDate = False\<rparr> None)"
  by (simp add: Observe_def)

theorem Observe_no_external_name_witness:
  "GetExternalName cluster0 = []
   \<and> Observe env0 state0 (DBCluster cluster0) =
       (state0, DBCluster cluster0,
        Returned \<lparr>ResourceExists = False, ResourceUpToDate = False\<rparr> None)"
proof -
  have h: "GetExternalName cluster0 = []" by simp
  from h Observe_no_external_name [OF h, of env0 state0] show ?thesis by simp
qed

subsection \<open>Delete: the reply of the remote service\<close>

text \<open>
  Claim C9. On a Database Cluster whose observed identifier is set, Delete returns no
  error when the remote delete call is answered not-found, and also when it succeeds;
  when the call fails with any other reply, Delete returns that error wrapped with the
  deletion-failure tag.
\<close>

theorem Delete_not_found:
  assumes "obs_ID (AtProvider cr) = Some i"
    and "Databases_Delete c i = (response, err)"
  shows "(response = Some r \<and> StatusCode r = 404 \<longrightarrow>
            snd (snd (Delete c s (DBCluster cr))) = Returned () None)
         \<and> (err = Some e \<and> (response = None \<or> response = Some r \<and> StatusCode r \<noteq> 404) \<longrightarrow>
            snd (snd (Delete c s (DBCluster cr)))
              = Returned () (Some (ErrorWrap e errDBDeleteFailed)))
         \<and> (err = None \<longrightarrow> snd (snd (Delete c s (DBCluster cr))) = Returned () None)"
  using assms
  by (auto simp: Delete_def Let_def IgnoreNotFound_def StatusNotFound_def split: option.splits)

theorem Delete_not_found_witness:
  "obs_ID (AtProvider cluster1) = Some ''id-1''
   \<and> Databases_Delete env_not_found ''id-1''
       = (Some \<lparr>StatusCode = 404\<rparr>, Some (ErrorResponse ''not found''))
   \<and> snd (snd (Delete env_not_found state0 (DBCluster cluster1))) = Returned () None
   \<and> Databases_Delete env_failure ''id-1''
       = (Some \<lparr>StatusCode = 500\<rparr>, Some (ErrorResponse ''server error''))
   \<and> snd (snd (Delete env_failure state0 (DBCluster cluster1)))
       = Returned () (Some (ErrorWrap (ErrorResponse ''server error'')
                              ''deletion of Database Cluster resource has failed''))
   \<and> Databases_Delete env0 ''id-1'' = (Some \<lparr>StatusCode = 204\<rparr>, None)
   \<and> snd (snd (Delete env0 state0 (DBCluster cluster1))) = Returned () None"
proof -
  have i: "obs_ID (AtProvider cluster1) = Some ''id-1''"
    by (simp add: cluster1_def observation0_def)
  have n: "Databases_Delete env_not_found ''id-1''
             = (Some \<lparr>StatusCode = 404\<rparr>, Some (ErrorResponse ''not found''))"
    by (simp add: env_not_found_def)
  have f: "Databases_Delete env_failure ''id-1''
             = (Some \<lparr>StatusCode = 500\<rparr>, Some (ErrorResponse ''server error''))"
    by (simp add: env_failure_def)
  have z: "Databases_Delete env0 ''id-1'' = (Some \<lparr>StatusCode = 204\<rparr>, None)"
    by (simp add: env0_def)
  from i n f z
    Delete_not_found [OF i n, where r = "\<lparr>StatusCode = 404\<rparr>" and s = state0]
    Delete_not_found [OF i f, where r = "\<lparr>StatusCode = 500\<rparr>" and s = state0
      and e = "ErrorResponse ''server error''"]
    Delete_not_found [OF i z, where s = state0]
  show ?thesis by (simp add: errDBDeleteFailed_def)
qed

subsection \<open>Observe: up to date\<close>

text \<open>
  Claim C10, as stated, fails: on a bound resource whose fetch is answered not-found,
  Observe returns without error and reports exists = false and upToDate = false.
\<close>

theorem Observe_not_found_counterexample:
  "GetExternalName cluster1 = ''id-1''
   \<and> snd (snd (Observe env_not_found state0 (DBCluster cluster1)))
       = Returned \<lparr>ResourceExists = False, ResourceUpToDate = False\<rparr> None"
  by (simp add: Observe_def Let_def env_not_found_def env0_def IgnoreNotFound_def
      StatusNotFound_def ExternalObservation0_def)

text \<open>
  Claim C10, amended. When Observe on a bound resource returns without error, it
  reports upToDate = true exactly when the fetch returned no error, whatever the
  desired and the observed configuration are, and it then reports exists = true as
  well; the other returns without error are those whose fetch error was swallowed as
  not-found, and they report exists = false and upToDate = false.
\<close>

theorem Observe_up_to_date:
  assumes "GetExternalName cr \<noteq> []"
    and "snd (snd (Observe c s (DBCluster cr))) = Returned obs None"
  shows "ResourceUpToDate obs = (snd (snd (Databases_Get c (GetExternalName cr))) = None)
         \<and> ResourceExists obs = (snd (snd (Databases_Get c (GetExternalName cr))) = None)"
  using assms
  by (auto simp: Observe_def Let_def ExternalObservation0_def
      split: prod.splits option.splits if_splits)

text \<open>
  The instance: the desired state of the sample cluster (one node, no version, no tags)
  differs from the observed database, the fetch succeeds, and Observe reports
  upToDate = true.
\<close>

theorem Observe_up_to_date_witness:
  "GetExternalName cluster1 \<noteq> []
   \<and> snd (snd (Observe env0 state0 (DBCluster cluster1)))
       = Returned \<lparr>ResourceExists = True, ResourceUpToDate = True\<rparr> None
   \<and> snd (snd (Databases_Get env0 (GetExternalName cluster1))) = None"
proof -
  have n: "GetExternalName cluster1 \<noteq> []" by simp
  have r: "snd (snd (Observe env0 state0 (DBCluster cluster1)))
             = Returned \<lparr>ResourceExists = True, ResourceUpToDate = True\<rparr> None"
    by (simp add: Observe_def Let_def GetExternalName_def env0_def cluster1_def cluster0_def
        parameters0_def database0_def state0_def DeepCopy_def LateInitializeSpec_def
        LateInitializeString_def make_slice_def cmp_Equal_def call_def)
  from n r Observe_up_to_date [OF n r] show ?thesis by simp
qed

end
